theory Spec2Isabelle
  imports Main
begin

section \<open>JavaScript values\<close>

text \<open>
  The server (\<^verbatim>\<open>src/server.js\<close>) is JavaScript. A primitive value is a \<open>jsval\<close>; the
  strict comparison \<^verbatim>\<open>===\<close> on primitives is equality of \<open>jsval\<close>. A string is a
  \<open>string\<close> whose characters stand for the code units U+0000 to U+00FF (so that
  the command name, with its a-ring U+00E5, is eight characters); numbers are the integers (instance ids,
  counters, percentages without a fraction). Reading a property that an object does not have gives \<open>JUndefined\<close>.
\<close>

datatype jsval = JUndefined | JNull | JBool bool | JNum int | JStr string

text \<open>
  What the code can throw or a promise can be rejected with: the \<^verbatim>\<open>TypeError\<close> of
  reading a property of \<^verbatim>\<open>undefined\<close> (or calling a method a value does not have), and
  the rejection of a promise of a collaborator, with its \<^verbatim>\<open>error.message\<close>.
\<close>

datatype jserror = TypeError | Rejected string

text \<open>An object with dynamic keys (a dialog's \<^verbatim>\<open>submission\<close>): its properties in order.\<close>

type_synonym jsobject = "(string \<times> jsval) list"

definition getprop :: "jsobject \<Rightarrow> string \<Rightarrow> jsval" where
  "getprop obj k = (case map_of obj k of None \<Rightarrow> JUndefined | Some v \<Rightarrow> v)"

subsection \<open>Strings: template literals, trim, split\<close>

fun digits :: "nat \<Rightarrow> string" where
  "digits n =
     (if n < 10 then [''0123456789'' ! n]
      else digits (n div 10) @ [''0123456789'' ! (n mod 10)])"

definition number_toString :: "int \<Rightarrow> string" where
  "number_toString i = (if i < 0 then ''-'' @ digits (nat (- i)) else digits (nat i))"

text \<open>
  \<^verbatim>\<open>`${v}`\<close>: the conversion a template literal applies to a substituted value. For a
  number it is right for the integers of magnitude below \<open>10 ^ 21\<close>, which JavaScript
  prints with all their digits; from there on JavaScript prints an exponent form, which
  \<open>number_toString\<close> does not follow. The ids, counters and levels of this program are
  far below.
\<close>

fun toString :: "jsval \<Rightarrow> string" where
  "toString JUndefined = ''undefined''"
| "toString JNull = ''null''"
| "toString (JBool b) = (if b then ''true'' else ''false'')"
| "toString (JNum i) = number_toString i"
| "toString (JStr s) = s"

text \<open>
  The white space and line terminators that \<^verbatim>\<open>String.prototype.trim\<close> removes, among the
  code units up to U+00FF: TAB, LF, VT, FF, CR, SP and NBSP.
\<close>

definition is_ws :: "char \<Rightarrow> bool" where
  "is_ws c = (c \<in> set [CHR 0x09, CHR 0x0A, CHR 0x0B, CHR 0x0C, CHR 0x0D, CHR 0x20, CHR 0xA0])"

definition trim :: "string \<Rightarrow> string" where
  "trim s = rev (dropWhile is_ws (rev (dropWhile is_ws s)))"

text \<open>
  \<^verbatim>\<open>s.split(sep)\<close> for a separator of one character: the pieces between the
  separators, so never the empty array.
\<close>

fun split :: "char \<Rightarrow> string \<Rightarrow> string list" where
  "split sep [] = [[]]"
| "split sep (c # cs) =
     (if c = sep then [] # split sep cs
      else (case split sep cs of [] \<Rightarrow> [[c]] | w # ws \<Rightarrow> (c # w) # ws))"

section \<open>Kudos validation\<close>

text \<open>One entry of the \<^verbatim>\<open>errors\<close> array: \<^verbatim>\<open>{ name, error }\<close>.\<close>

record field_error =
  fe_name :: string
  fe_error :: string

text \<open>
  \<^verbatim>\<open>validateKudosSubmission(submission)\<close> (lines 467-478). \<^verbatim>\<open>submission.comment.trim()\<close>
  throws a \<^verbatim>\<open>TypeError\<close> unless the comment is a string: \<^verbatim>\<open>undefined\<close> and \<^verbatim>\<open>null\<close>
  have no properties, a boolean or a number has no \<^verbatim>\<open>trim\<close> method. The empty string is
  falsy. The result is \<open>Some errors\<close> for \<^verbatim>\<open>{ errors }\<close> and \<open>None\<close> for the
  \<^verbatim>\<open>undefined\<close> of falling off the end.
\<close>

definition validateKudosSubmission :: "jsobject \<Rightarrow> jserror + field_error list option" where
  "validateKudosSubmission submission =
     (case getprop submission ''comment'' of
        JStr comment \<Rightarrow>
          (let errors =
             (if trim comment = []
              then [] @ [\<lparr>fe_name = ''comment'', fe_error = ''The comment cannot be empty''\<rparr>]
              else [])
           in if length errors > 0 then Inr (Some errors) else Inr None)
      | _ \<Rightarrow> Inl TypeError)"

section \<open>Devices of the gateway\<close>

text \<open>
  A raw device record of the gateway client, with the parts \<^verbatim>\<open>printDeviceInfo\<close> reads.
  \<open>deviceInfo\<close>, \<open>lightList\<close> and \<open>plugList\<close> are \<open>None\<close> when the record has no such
  property.
\<close>

record device_info =
  battery :: jsval

record light =
  l_onOff :: jsval
  l_spectrum :: jsval
  l_dimmer :: jsval
  l_color :: jsval
  l_colorTemperature :: jsval

record plug =
  p_onOff :: jsval

record device =
  d_type :: jsval
  d_instanceId :: jsval
  d_name :: jsval
  deviceInfo :: "device_info option"
  lightList :: "light list option"
  plugList :: "plug list option"

text \<open>The object \<^verbatim>\<open>info\<close> that \<^verbatim>\<open>printDeviceInfo\<close> builds for a light (lines 393-401).\<close>

record info =
  i_instanceId :: jsval
  i_name :: jsval
  i_onOff :: jsval
  i_spectrum :: jsval
  i_dimmer :: jsval
  i_color :: jsval
  i_colorTemperature :: jsval

text \<open>
  \<^verbatim>\<open>printDeviceInfo(device)\<close> (lines 380-420). The \<^verbatim>\<open>switch\<close> compares \<^verbatim>\<open>device.type\<close>
  strictly with 0, 4, 2 and 3. Only the light case has a \<^verbatim>\<open>return\<close>; the others
  \<^verbatim>\<open>break\<close> or fall off the end, so the call gives \<^verbatim>\<open>undefined\<close> (\<open>None\<close>). The
  lines written with \<^verbatim>\<open>console.log\<close> go to the server's console and are not part of the
  model, but evaluating their arguments is: \<^verbatim>\<open>device.deviceInfo.battery\<close>,
  \<^verbatim>\<open>device.lightList[0]\<close>, \<^verbatim>\<open>lightInfo.onOff\<close> and \<^verbatim>\<open>device.plugList[0].onOff\<close> throw a
  \<^verbatim>\<open>TypeError\<close> when the object they read from is \<^verbatim>\<open>undefined\<close>.
\<close>

definition printDeviceInfo :: "device \<Rightarrow> jserror + info option" where
  "printDeviceInfo device =
     (if d_type device = JNum 0 \<or> d_type device = JNum 4 then
        (case deviceInfo device of
           None \<Rightarrow> Inl TypeError
         | Some di \<Rightarrow> Inr None)
      else if d_type device = JNum 2 then
        (case lightList device of
           None \<Rightarrow> Inl TypeError
         | Some [] \<Rightarrow> Inl TypeError
         | Some (lightInfo # _) \<Rightarrow>
             Inr (Some \<lparr>i_instanceId = d_instanceId device,
                        i_name = d_name device,
                        i_onOff = l_onOff lightInfo,
                        i_spectrum = l_spectrum lightInfo,
                        i_dimmer = l_dimmer lightInfo,
                        i_color = l_color lightInfo,
                        i_colorTemperature = l_colorTemperature lightInfo\<rparr>))
      else if d_type device = JNum 3 then
        (case plugList device of
           None \<Rightarrow> Inl TypeError
         | Some [] \<Rightarrow> Inl TypeError
         | Some (p # _) \<Rightarrow> Inr None)
      else Inr None)"

section \<open>Blocks and the device listing\<close>

text \<open>
  The block tree of the chat platform, as the code writes it: a text object
  \<^verbatim>\<open>{ type, text, emoji? }\<close>, the element of an input block, and the four kinds of block
  the file builds (a section with a text and maybe a \<^verbatim>\<open>block_id\<close>, a section with
  fields, an input, a divider). A view is \<^verbatim>\<open>{ type, title?, submit?, blocks }\<close>.
\<close>

record textobj =
  t_type :: string
  t_text :: jsval
  t_emoji :: "bool option"

record element =
  e_type :: string
  e_multiline :: bool

datatype block =
    Section "string option" textobj
  | FieldsSection "textobj list"
  | InputBlock element textobj
  | Divider

record view =
  v_type :: string
  v_title :: "textobj option"
  v_submit :: "textobj option"
  v_blocks :: "block list"

definition mrkdwn :: "jsval \<Rightarrow> textobj" where
  "mrkdwn t = \<lparr>t_type = ''mrkdwn'', t_text = t, t_emoji = None\<rparr>"

definition plain_text :: "string \<Rightarrow> textobj" where
  "plain_text t = \<lparr>t_type = ''plain_text'', t_text = JStr t, t_emoji = Some True\<rparr>"

text \<open>The \<^verbatim>\<open>type\<close> property of a block.\<close>

fun block_type :: "block \<Rightarrow> string" where
  "block_type (Section _ _) = ''section''"
| "block_type (FieldsSection _) = ''section''"
| "block_type (InputBlock _ _) = ''input''"
| "block_type Divider = ''divider''"

text \<open>The name of the bot, \<^verbatim>\<open>Tr.dbot\<close> with the a-ring U+00E5 as its third character.\<close>

definition bot_name :: string where
  "bot_name = ''Tr'' @ [CHR 0xE5] @ ''dbot''"

text \<open>The first block of every listing (lines 283-291).\<close>

definition welcome_section :: block where
  "welcome_section = Section None
     (mrkdwn (JStr (''*Welcome to '' @ bot_name @ ''*\<newline>*Please choose a device:*'')))"

text \<open>The blocks pushed for one device whose \<^verbatim>\<open>info\<close> is not \<^verbatim>\<open>undefined\<close> (lines 311-373).\<close>

definition basicInfo :: "info \<Rightarrow> block" where
  "basicInfo info = Section (Some []) (mrkdwn (i_name info))"

definition currentInfo :: "info \<Rightarrow> block" where
  "currentInfo info = FieldsSection
     ([] @ [mrkdwn (JStr (''*Instance ID*\<newline> '' @ toString (i_instanceId info)))]
         @ [mrkdwn (JStr (''*On/Off*\<newline> '' @ toString (i_onOff info)))]
         @ [mrkdwn (JStr (''*Spectrum*\<newline> '' @ toString (i_spectrum info)))]
         @ [mrkdwn (JStr (''*Dimmer*\<newline> '' @ toString (i_dimmer info)))]
         @ [mrkdwn (JStr (''*Color*\<newline> #'' @ toString (i_color info)))])"

definition textInput :: block where
  "textInput =
     InputBlock \<lparr>e_type = ''plain_text_input'', e_multiline = True\<rparr> (plain_text ''Label'')"

definition divider :: block where
  "divider = Divider"

definition device_blocks :: "info \<Rightarrow> block list" where
  "device_blocks info = [basicInfo info, currentInfo info, textInput, divider]"

text \<open>
  The loop of \<^verbatim>\<open>getAndPrintDevices\<close> (lines 305-376) over the devices of the gateway, in
  the order \<^verbatim>\<open>for ... in\<close> enumerates them, with \<^verbatim>\<open>deviceInfo.blocks\<close> as the
  accumulator. An exception of \<^verbatim>\<open>printDeviceInfo\<close> rejects the whole listing.
\<close>

fun devices_loop :: "device list \<Rightarrow> block list \<Rightarrow> jserror + block list" where
  "devices_loop [] blocks = Inr blocks"
| "devices_loop (device # rest) blocks =
     (case printDeviceInfo device of
        Inl e \<Rightarrow> Inl e
      | Inr None \<Rightarrow> devices_loop rest blocks
      | Inr (Some info) \<Rightarrow> devices_loop rest (blocks @ device_blocks info))"

text \<open>
  \<^verbatim>\<open>getAndPrintDevices()\<close> (lines 270-378). The gateway client (\<^verbatim>\<open>./tradfri/connection\<close>)
  is a collaborator outside this file: \<open>gateway\<close> is what awaiting
  \<^verbatim>\<open>connection.getConnection()\<close> gives, a rejection or the values of \<^verbatim>\<open>tradfri.devices\<close> as
  they stand after the settle delay.
\<close>

definition getAndPrintDevices :: "jserror + device list \<Rightarrow> jserror + view" where
  "getAndPrintDevices gateway =
     (case gateway of
        Inl e \<Rightarrow> Inl e
      | Inr devices \<Rightarrow>
          (case devices_loop devices [welcome_section] of
             Inl e \<Rightarrow> Inl e
           | Inr blocks \<Rightarrow>
               Inr \<lparr>v_type = ''modal'',
                    v_title = Some (plain_text bot_name),
                    v_submit = None,
                    v_blocks = blocks\<rparr>))"

section \<open>Messages, interaction payloads and the message store\<close>

text \<open>
  A message of the chat platform with the properties the code reads or writes; a scalar
  property that is absent is \<open>JUndefined\<close>, an absent array is \<open>None\<close>.
\<close>

record button =
  b_name :: jsval
  b_text :: jsval
  b_value :: jsval
  b_type :: jsval
  b_style :: jsval

record attachment =
  a_text :: jsval
  a_callback_id :: jsval
  a_title :: jsval
  a_title_link :: jsval
  a_actions :: "button list option"

record message =
  m_text :: jsval
  m_response_type :: jsval
  m_attachments :: "attachment list option"
  m_replace_original :: jsval

text \<open>The object literal \<^verbatim>\<open>{ text: t }\<close>.\<close>

definition text_message :: "string \<Rightarrow> message" where
  "text_message t =
     \<lparr>m_text = JStr t, m_response_type = JUndefined, m_attachments = None,
      m_replace_original = JUndefined\<rparr>"

text \<open>
  JavaScript objects are references. The handlers bind \<^verbatim>\<open>reply\<close> to
  \<^verbatim>\<open>payload.original_message\<close> and then \<^verbatim>\<open>delete\<close> a property through \<^verbatim>\<open>reply\<close>, so the
  message an event carries lives in a store, and the payload holds its address. The
  arrays \<^verbatim>\<open>payload.actions\<close> and \<^verbatim>\<open>selected_options\<close> are only read at index 0, where an
  absent array and an empty one throw the same \<^verbatim>\<open>TypeError\<close>: both are \<open>[]\<close>.
\<close>

type_synonym store = "nat \<Rightarrow> message option"

record user_ref =
  u_id :: jsval
  u_name :: jsval

record team_ref =
  tm_domain :: jsval

record selected_option =
  so_value :: jsval

record action =
  act_value :: jsval
  act_selected_options :: "selected_option list"

record payload =
  p_user :: user_ref
  p_team :: team_ref
  p_actions :: "action list"
  p_submission :: jsobject
  p_original_message :: "nat option"

section \<open>The persistence collaborator\<close>

text \<open>
  \<^verbatim>\<open>./models\<close> is required by the file and is not part of it. The handlers are
  functions of it: \<open>models\<close> gives, for each call the handlers make, how the promise
  it returns settles (\<open>Inl\<close> a rejection, \<open>Inr\<close> the value it resolves to).
\<close>

record user =
  usr_id :: jsval
  agreedToPolicy :: bool
  kudosCount :: int

record neighborhood =
  n_name :: jsval
  n_link :: jsval

record models =
  findBySlackId :: "jsval \<Rightarrow> jserror + user"
  setPolicyAgreementAndSave :: "user \<Rightarrow> bool \<Rightarrow> jserror + user"
  incrementKudosAndSave :: "user \<Rightarrow> jsval \<Rightarrow> jserror + user"
  neighborhoods_find :: "jsval \<Rightarrow> jserror + neighborhood"

section \<open>Interactive message handlers\<close>

text \<open>
  What one run of a handler does. \<open>returned\<close> is the synchronous return value, the
  immediate reply (or the exception thrown); \<open>pushed\<close> are the messages passed to
  \<^verbatim>\<open>respond\<close> before the handler returns, in order; \<open>deferred\<close> is \<open>None\<close> when the
  handler schedules nothing, and otherwise the messages its scheduled continuation
  (a promise chain or a timer callback) passes to \<^verbatim>\<open>respond\<close> once the promises of the
  collaborator have settled; \<open>final_store\<close> is the message store the handler leaves.
  A continuation runs after the synchronous part has run to completion.
\<close>

datatype reply = ReplyUndefined | ReplyErrors "field_error list" | ReplyMessage nat

record outcome =
  returned :: "jserror + reply"
  pushed :: "message list"
  deferred :: "message list option"
  final_store :: store

definition all_pushes :: "outcome \<Rightarrow> message list" where
  "all_pushes out = pushed out @ (case deferred out of None \<Rightarrow> [] | Some ms \<Rightarrow> ms)"

text \<open>
  Lines 93-95 and, word for word, lines 151-153:
  \<^verbatim>\<open>const reply = payload.original_message; delete reply.attachments[0].actions; return reply;\<close>
  The result is the new store and the address \<^verbatim>\<open>reply\<close> holds. Reading \<^verbatim>\<open>attachments\<close> of
  an absent message, index 0 of an absent array or \<^verbatim>\<open>actions\<close> of an absent first
  attachment throws. (An address always has its object; the second branch is never
  taken by a payload of the platform.)
\<close>

definition strip_original :: "store \<Rightarrow> nat option \<Rightarrow> jserror + store \<times> nat" where
  "strip_original st original_message =
     (case original_message of
        None \<Rightarrow> Inl TypeError
      | Some reply \<Rightarrow>
          (case st reply of
             None \<Rightarrow> Inl TypeError
           | Some msg \<Rightarrow>
               (case m_attachments msg of
                  None \<Rightarrow> Inl TypeError
                | Some [] \<Rightarrow> Inl TypeError
                | Some (att # atts) \<Rightarrow>
                    Inr (st(reply \<mapsto> msg\<lparr>m_attachments :=
                           Some (att\<lparr>a_actions := None\<rparr> # atts)\<rparr>), reply))))"

definition agreement_error :: message where
  "agreement_error = text_message ''An error occurred while recording your agreement choice.''"

text \<open>
  The handler of \<^verbatim>\<open>accept_tos\<close> (lines 56-96). The promise chain is built first; its
  callbacks run later. \<^verbatim>\<open>payload.actions[0].value\<close> is read inside the first
  \<^verbatim>\<open>then\<close>, so its \<^verbatim>\<open>TypeError\<close> is caught by the \<^verbatim>\<open>catch\<close>. The call of \<^verbatim>\<open>respond\<close>
  at lines 87-89 stands outside the chain and runs before the handler returns.
\<close>

definition accept_tos_handler :: "models \<Rightarrow> store \<Rightarrow> payload \<Rightarrow> outcome" where
  "accept_tos_handler M st payload =
     (let saved =
            (case findBySlackId M (u_id (p_user payload)) of
               Inl error \<Rightarrow> Inl error
             | Inr user \<Rightarrow>
                 (case p_actions payload of
                    [] \<Rightarrow> Inl TypeError
                  | a # _ \<Rightarrow> setPolicyAgreementAndSave M user (act_value a = JStr ''accept'')));
          final =
            (case saved of
               Inr user \<Rightarrow>
                 text_message
                   (if agreedToPolicy user
                    then ''Thank you for agreeing to the terms of service''
                    else ''You have denied the terms of service. You will no longer have access to this app.'')
             | Inl error \<Rightarrow> agreement_error);
          stripped = strip_original st (p_original_message payload)
      in \<lparr>returned = (case stripped of Inl e \<Rightarrow> Inl e | Inr (st', reply) \<Rightarrow> Inr (ReplyMessage reply)),
          pushed = [agreement_error],
          deferred = Some [final],
          final_store = (case stripped of Inl e \<Rightarrow> st | Inr (st', reply) \<Rightarrow> st')\<rparr>)"

definition thrown :: "jserror \<Rightarrow> store \<Rightarrow> outcome" where
  "thrown e st = \<lparr>returned = Inl e, pushed = [], deferred = None, final_store = st\<rparr>"

definition neighborhood_error :: message where
  "neighborhood_error = text_message ''An error occurred while finding the neighborhood.''"

text \<open>
  The action handler of \<^verbatim>\<open>pick_sf_neighborhood\<close> (lines 119-154). The argument of
  \<^verbatim>\<open>neighborhoods.find\<close> is evaluated before anything else, outside the chain. The
  \<^verbatim>\<open>then\<close> callback reads \<^verbatim>\<open>payload.original_message.text\<close> when it runs, after the
  synchronous part; a \<^verbatim>\<open>TypeError\<close> there goes to the \<^verbatim>\<open>catch\<close>.
\<close>

definition pick_sf_neighborhood_handler :: "models \<Rightarrow> store \<Rightarrow> payload \<Rightarrow> outcome" where
  "pick_sf_neighborhood_handler M st payload =
     (case p_actions payload of
        [] \<Rightarrow> thrown TypeError st
      | a # _ \<Rightarrow>
          (case act_selected_options a of
             [] \<Rightarrow> thrown TypeError st
           | selected # _ \<Rightarrow>
               (let found = neighborhoods_find M (so_value selected);
                    stripped = strip_original st (p_original_message payload);
                    st' = (case stripped of Inl e \<Rightarrow> st | Inr (st', reply) \<Rightarrow> st');
                    final =
                      (case found of
                         Inl error \<Rightarrow> neighborhood_error
                       | Inr neighborhood \<Rightarrow>
                           (case p_original_message payload of
                              None \<Rightarrow> neighborhood_error
                            | Some r \<Rightarrow>
                                (case st' r of
                                   None \<Rightarrow> neighborhood_error
                                 | Some original \<Rightarrow>
                                     \<lparr>m_text = m_text original,
                                      m_response_type = JUndefined,
                                      m_attachments = Some
                                        [\<lparr>a_text = JStr ''One of the most interesting neighborhoods in the city.'',
                                          a_callback_id = JUndefined,
                                          a_title = n_name neighborhood,
                                          a_title_link = n_link neighborhood,
                                          a_actions = None\<rparr>],
                                      m_replace_original = JUndefined\<rparr>)))
                in \<lparr>returned =
                      (case stripped of Inl e \<Rightarrow> Inl e | Inr (st', reply) \<Rightarrow> Inr (ReplyMessage reply)),
                    pushed = [],
                    deferred = Some [final],
                    final_store = st'\<rparr>)))"

text \<open>
  The callback the dialog handler passes to \<^verbatim>\<open>setTimeout\<close> (lines 167-192): the
  messages it passes to \<^verbatim>\<open>respond\<close>, in order. The user is looked up by
  \<^verbatim>\<open>payload.submission.id\<close>.
\<close>

definition kudos_timeout :: "models \<Rightarrow> payload \<Rightarrow> message list" where
  "kudos_timeout M payload =
     (let partialMessage =
            ''<@'' @ toString (u_id (p_user payload)) @ ''> just gave kudos to <@''
              @ toString (getprop (p_submission payload) ''user'') @ ''>.'';
          saved =
            (case findBySlackId M (getprop (p_submission payload) ''id'') of
               Inl error \<Rightarrow> Inl error
             | Inr user \<Rightarrow>
                 incrementKudosAndSave M user (getprop (p_submission payload) ''comment''))
      in [text_message partialMessage] @
         [case saved of
            Inr user \<Rightarrow>
              (text_message
                 (partialMessage @ '' That makes a total of '' @ toString (JNum (kudosCount user))
                    @ ''! :balloon:''))\<lparr>m_replace_original := JBool True\<rparr>
          | Inl error \<Rightarrow> text_message ''An error occurred while incrementing kudos.''])"

text \<open>The handler of every \<^verbatim>\<open>dialog_submission\<close> (lines 156-194).\<close>

definition dialog_submission_handler :: "models \<Rightarrow> store \<Rightarrow> payload \<Rightarrow> outcome" where
  "dialog_submission_handler M st payload =
     (case validateKudosSubmission (p_submission payload) of
        Inl e \<Rightarrow> thrown e st
      | Inr (Some errors) \<Rightarrow>
          \<lparr>returned = Inr (ReplyErrors errors), pushed = [], deferred = None, final_store = st\<rparr>
      | Inr None \<Rightarrow>
          \<lparr>returned = Inr ReplyUndefined, pushed = [],
           deferred = Some (kudos_timeout M payload), final_store = st\<rparr>)"

section \<open>The slash command\<close>

text \<open>The two example payloads the command answers with (lines 197-246).\<close>

definition interactiveButtons :: message where
  "interactiveButtons =
     \<lparr>m_text = JStr ''The terms of service for this app are _not really_ here: <https://unsplash.com/photos/bmmcfZqSjBU>'',
      m_response_type = JStr ''in_channel'',
      m_attachments = Some
        [\<lparr>a_text = JStr ''Do you accept the terms of service?'',
          a_callback_id = JStr ''accept_tos'',
          a_title = JUndefined,
          a_title_link = JUndefined,
          a_actions = Some
            [\<lparr>b_name = JStr ''accept_tos'', b_text = JStr ''Yes'', b_value = JStr ''accept'',
              b_type = JStr ''button'', b_style = JStr ''primary''\<rparr>,
             \<lparr>b_name = JStr ''accept_tos'', b_text = JStr ''No'', b_value = JStr ''deny'',
              b_type = JStr ''button'', b_style = JStr ''danger''\<rparr>]\<rparr>],
      m_replace_original = JUndefined\<rparr>"

definition interactiveMenu :: view where
  "interactiveMenu =
     \<lparr>v_type = ''modal'', v_title = None, v_submit = Some (plain_text ''Submit''),
      v_blocks = [textInput]\<rparr>"

text \<open>
  The body of a request to \<^verbatim>\<open>/slack/commands\<close>, and what the handler does with the
  response object \<^verbatim>\<open>res\<close> of the web framework and with its other collaborators, as the
  calls it makes, in order: \<^verbatim>\<open>res.json(x)\<close>, \<^verbatim>\<open>res.send(x)\<close> (\<open>None\<close> for no
  argument), \<^verbatim>\<open>res.sendStatus(n)\<close>, \<^verbatim>\<open>next()\<close>, \<^verbatim>\<open>web.views.open\<close> with a trigger id, and
  \<^verbatim>\<open>axios.post(url, message)\<close>.
\<close>

record request =
  rq_command :: jsval
  rq_text :: jsval
  rq_trigger_id :: jsval
  rq_response_url :: jsval

datatype effect =
    ResJsonMessage message
  | ResJsonView view
  | ResSend "string option"
  | ResSendStatus nat
  | Next
  | ViewsOpen jsval
  | AxiosPost jsval message

definition command_name :: string where
  "command_name = ''/tr'' @ [CHR 0xE5] @ ''dbot''"

definition usage :: string where
  "usage = ''Use this command followed by `button`, `menu`, or `dialog`.''"

text \<open>
  \<^verbatim>\<open>slackSlashCommand(req, res, next)\<close> (lines 423-458). \<open>verified\<close> is what
  \<^verbatim>\<open>signature.isVerified(req)\<close> answers, \<open>gateway\<close> is the gateway as in
  \<open>getAndPrintDevices\<close>, and \<open>views_open\<close> is how the promise of \<^verbatim>\<open>web.views.open\<close>
  settles (\<open>None\<close> resolved, \<open>Some m\<close> rejected with \<^verbatim>\<open>error.message\<close> \<open>m\<close>).
  \<^verbatim>\<open>text.split\<close> throws unless \<^verbatim>\<open>text\<close> is a string; an exception, like a rejected
  listing, leaves the request without any call on \<^verbatim>\<open>res\<close>.
\<close>

definition slackSlashCommand ::
  "bool \<Rightarrow> jserror + device list \<Rightarrow> string option \<Rightarrow> request \<Rightarrow> jserror + effect list" where
  "slackSlashCommand verified gateway views_open req =
     (if verified \<and> rq_command req = JStr command_name then
        (case rq_text req of
           JStr text \<Rightarrow>
             (let type = (case split (CHR '' '') text of [] \<Rightarrow> JUndefined | w # _ \<Rightarrow> JStr w) in
              if type = JStr ''button'' then Inr [ResJsonMessage interactiveButtons]
              else if type = JStr ''menu'' then Inr [ResJsonView interactiveMenu]
              else if type = JStr ''devices'' then
                (case getAndPrintDevices gateway of
                   Inl e \<Rightarrow> Inl e
                 | Inr devices \<Rightarrow> Inr [ResJsonView devices])
              else if type = JStr ''dialog'' then
                Inr ([ResSend None, ViewsOpen (rq_trigger_id req)] @
                     (case views_open of
                        None \<Rightarrow> []
                      | Some m \<Rightarrow>
                          [AxiosPost (rq_response_url req)
                             (text_message (''An error occurred while opening the dialog: '' @ m))]))
              else Inr [ResSend (Some usage)])
         | _ \<Rightarrow> Inl TypeError)
      else Inr [ResSendStatus 404, Next])"

subsection \<open>What the web framework writes\<close>

text \<open>
  The response object \<^verbatim>\<open>res\<close> belongs to the web framework (\<^verbatim>\<open>express\<close>, required at
  line 2), a dependency that is not part of the file. By its documentation,
  \<^verbatim>\<open>res.json(x)\<close> and \<^verbatim>\<open>res.send(x)\<close> answer with the status 200 and the body \<^verbatim>\<open>x\<close> (no
  body for \<^verbatim>\<open>res.send()\<close>), and \<^verbatim>\<open>res.sendStatus(code)\<close> sets the status and sends, as
  the body, the text registered for the code in its table of status messages, or the
  code in decimal when the table has none; for the codes 204 and 304 it sends no body.
  \<open>statuses\<close> is that table. \<open>responses\<close> are the responses one run of the handler
  writes; \<^verbatim>\<open>next()\<close> and the calls on other collaborators write none, and neither does a
  run that throws.
\<close>

datatype http_body = JsonMessage message | JsonView view | Text string

record http_response =
  h_status :: nat
  h_body :: "http_body option"

definition sendStatus :: "(nat \<Rightarrow> string option) \<Rightarrow> nat \<Rightarrow> http_response" where
  "sendStatus statuses statusCode =
     \<lparr>h_status = statusCode,
      h_body =
        (if statusCode = 204 \<or> statusCode = 304 then None
         else Some (Text (case statuses statusCode of
                            Some m \<Rightarrow> m
                          | None \<Rightarrow> digits statusCode)))\<rparr>"

fun res_call :: "(nat \<Rightarrow> string option) \<Rightarrow> effect \<Rightarrow> http_response option" where
  "res_call statuses (ResJsonMessage m) = Some \<lparr>h_status = 200, h_body = Some (JsonMessage m)\<rparr>"
| "res_call statuses (ResJsonView v) = Some \<lparr>h_status = 200, h_body = Some (JsonView v)\<rparr>"
| "res_call statuses (ResSend None) = Some \<lparr>h_status = 200, h_body = None\<rparr>"
| "res_call statuses (ResSend (Some s)) = Some \<lparr>h_status = 200, h_body = Some (Text s)\<rparr>"
| "res_call statuses (ResSendStatus statusCode) = Some (sendStatus statuses statusCode)"
| "res_call statuses Next = None"
| "res_call statuses (ViewsOpen trigger_id) = None"
| "res_call statuses (AxiosPost url m) = None"

definition responses ::
  "(nat \<Rightarrow> string option) \<Rightarrow> jserror + effect list \<Rightarrow> http_response list" where
  "responses statuses result =
     (case result of
        Inl e \<Rightarrow> []
      | Inr effects \<Rightarrow> List.map_filter (res_call statuses) effects)"

section \<open>Example inputs\<close>

text \<open>
  Modelled from the spec: the persistence layer \<^verbatim>\<open>./models\<close>, which is not part of the
  file. The spec gives its contract (\<^verbatim>\<open>findUserById(id) -> User\<close>,
  \<^verbatim>\<open>user.setPolicyAgreement(bool) -> User\<close>, \<^verbatim>\<open>user.incrementKudos(comment) -> User{kudosCount}\<close>,
  and a lookup failure when a record is not found): a table of users keyed by their
  id, a lookup that is rejected for an id the table does not have, a flag that is set
  and a counter that is incremented by one. It has no neighborhoods. It is used for
  the concrete runs below only; the handlers are defined for every \<open>models\<close>.
\<close>

definition memory_models :: "(jsval \<times> user) list \<Rightarrow> models" where
  "memory_models users =
     \<lparr>findBySlackId = (\<lambda>id. case map_of users id of
                                None \<Rightarrow> Inl (Rejected ''user not found'')
                              | Some u \<Rightarrow> Inr u),
      setPolicyAgreementAndSave = (\<lambda>u agreed. Inr (u\<lparr>agreedToPolicy := agreed\<rparr>)),
      incrementKudosAndSave = (\<lambda>u comment. Inr (u\<lparr>kudosCount := kudosCount u + 1\<rparr>)),
      neighborhoods_find = (\<lambda>v. Inl (Rejected ''neighborhood not found''))\<rparr>"

text \<open>
  A kudos dialog submitted by user \<^verbatim>\<open>U1\<close> for the teammate \<^verbatim>\<open>U2\<close>, whose kudos count is
  4. The keys of \<^verbatim>\<open>submission\<close> are the names of the elements of the dialog (lines
  248-268): \<^verbatim>\<open>user\<close> and \<^verbatim>\<open>comment\<close>.
\<close>

definition kudos_payload :: payload where
  "kudos_payload =
     \<lparr>p_user = \<lparr>u_id = JStr ''U1'', u_name = JStr ''ann''\<rparr>,
      p_team = \<lparr>tm_domain = JStr ''lights''\<rparr>,
      p_actions = [],
      p_submission = [(''user'', JStr ''U2''), (''comment'', JStr ''great work'')],
      p_original_message = None\<rparr>"

definition kudos_users :: "(jsval \<times> user) list" where
  "kudos_users = [(JStr ''U2'', \<lparr>usr_id = JStr ''U2'', agreedToPolicy = False, kudosCount = 4\<rparr>)]"

text \<open>The same dialog with a comment of a space, a tab, a line feed and a space.\<close>

definition blank_payload :: payload where
  "blank_payload =
     \<lparr>p_user = \<lparr>u_id = JStr ''U1'', u_name = JStr ''ann''\<rparr>,
      p_team = \<lparr>tm_domain = JStr ''lights''\<rparr>,
      p_actions = [],
      p_submission = [(''user'', JStr ''U2''), (''comment'', JStr ('' '' @ [CHR 0x09, CHR 0x0A] @ '' ''))],
      p_original_message = None\<rparr>"

text \<open>
  User \<^verbatim>\<open>U1\<close> presses the button \<^verbatim>\<open>Yes\<close> of the message \<open>interactiveButtons\<close>, which is
  the object at address 0 of the store; and the same user picks from a menu of a
  message at that address.
\<close>

definition accept_users :: "(jsval \<times> user) list" where
  "accept_users = [(JStr ''U1'', \<lparr>usr_id = JStr ''U1'', agreedToPolicy = False, kudosCount = 0\<rparr>)]"

definition accept_store :: store where
  "accept_store = Map.empty(0 \<mapsto> interactiveButtons)"

definition accept_payload :: payload where
  "accept_payload =
     \<lparr>p_user = \<lparr>u_id = JStr ''U1'', u_name = JStr ''ann''\<rparr>,
      p_team = \<lparr>tm_domain = JStr ''lights''\<rparr>,
      p_actions = [\<lparr>act_value = JStr ''accept'', act_selected_options = []\<rparr>],
      p_submission = [],
      p_original_message = Some 0\<rparr>"

definition pick_payload :: payload where
  "pick_payload =
     \<lparr>p_user = \<lparr>u_id = JStr ''U1'', u_name = JStr ''ann''\<rparr>,
      p_team = \<lparr>tm_domain = JStr ''lights''\<rparr>,
      p_actions = [\<lparr>act_value = JUndefined, act_selected_options = [\<lparr>so_value = JStr ''Mission''\<rparr>]\<rparr>],
      p_submission = [],
      p_original_message = Some 0\<rparr>"

text \<open>
  Devices of each kind: a remote and a sensor with a battery level, a plug that is on,
  a light with one channel, a record of type light whose list of channels is empty,
  and a record of a type the \<^verbatim>\<open>switch\<close> does not know.
\<close>

definition example_remote :: device where
  "example_remote =
     \<lparr>d_type = JNum 0, d_instanceId = JNum 65536, d_name = JStr ''Remote'',
      deviceInfo = Some \<lparr>battery = JNum 87\<rparr>, lightList = None, plugList = None\<rparr>"

definition example_sensor :: device where
  "example_sensor =
     \<lparr>d_type = JNum 4, d_instanceId = JNum 65540, d_name = JStr ''Motion sensor'',
      deviceInfo = Some \<lparr>battery = JNum 60\<rparr>, lightList = None, plugList = None\<rparr>"

definition example_plug :: device where
  "example_plug =
     \<lparr>d_type = JNum 3, d_instanceId = JNum 65539, d_name = JStr ''Plug'',
      deviceInfo = None, lightList = None, plugList = Some [\<lparr>p_onOff = JBool True\<rparr>]\<rparr>"

definition example_channel :: light where
  "example_channel =
     \<lparr>l_onOff = JBool True, l_spectrum = JStr ''rgb'', l_dimmer = JNum 80,
      l_color = JStr ''f1e0b5'', l_colorTemperature = JUndefined\<rparr>"

definition example_light :: device where
  "example_light =
     \<lparr>d_type = JNum 2, d_instanceId = JNum 65537, d_name = JStr ''Desk lamp'',
      deviceInfo = None, lightList = Some [example_channel], plugList = None\<rparr>"

definition example_info :: info where
  "example_info =
     \<lparr>i_instanceId = JNum 65537, i_name = JStr ''Desk lamp'', i_onOff = JBool True,
      i_spectrum = JStr ''rgb'', i_dimmer = JNum 80, i_color = JStr ''f1e0b5'',
      i_colorTemperature = JUndefined\<rparr>"

definition example_light_no_channel :: device where
  "example_light_no_channel =
     \<lparr>d_type = JNum 2, d_instanceId = JNum 65538, d_name = JStr ''Bulb'',
      deviceInfo = None, lightList = Some [], plugList = None\<rparr>"

definition example_unknown :: device where
  "example_unknown =
     \<lparr>d_type = JNum 7, d_instanceId = JNum 65541, d_name = JStr ''Blind'',
      deviceInfo = None, lightList = None, plugList = None\<rparr>"

text \<open>
  The first word of the free text of a command: the text up to its first space. A
  request for the command of the bot with a given text.
\<close>

definition first_word :: "string \<Rightarrow> string" where
  "first_word text = takeWhile (\<lambda>c. c \<noteq> CHR '' '') text"

definition example_request :: "string \<Rightarrow> request" where
  "example_request text =
     \<lparr>rq_command = JStr command_name, rq_text = JStr text, rq_trigger_id = JStr ''T1'',
      rq_response_url = JStr ''https://hooks.example/1''\<rparr>"

text \<open>The entry of the framework's table of status messages for the code 404.\<close>

definition status_messages :: "nat \<Rightarrow> string option" where
  "status_messages = Map.empty(404 \<mapsto> ''Not Found'')"

section \<open>Kudos: validation and the two replies\<close>

lemma trim_Nil_iff: "trim s = [] \<longleftrightarrow> (\<forall>c\<in>set s. is_ws c)"
proof -
  have "trim s = [] \<longleftrightarrow> (\<forall>c\<in>set (dropWhile is_ws s). is_ws c)"
    by (simp add: trim_def)
  also have "\<dots> \<longleftrightarrow> dropWhile is_ws s = []"
  proof
    assume a: "\<forall>c\<in>set (dropWhile is_ws s). is_ws c"
    show "dropWhile is_ws s = []"
    proof (rule ccontr)
      assume n: "dropWhile is_ws s \<noteq> []"
      then have "\<not> is_ws (hd (dropWhile is_ws s))" by (rule hd_dropWhile)
      moreover have "hd (dropWhile is_ws s) \<in> set (dropWhile is_ws s)" using n by simp
      ultimately show False using a by blast
    qed
  qed (auto dest: set_dropWhileD)
  also have "\<dots> \<longleftrightarrow> (\<forall>c\<in>set s. is_ws c)" by simp
  finally show ?thesis .
qed

lemma validate_blank:
  assumes "getprop submission ''comment'' = JStr comment" and "\<forall>c\<in>set comment. is_ws c"
  shows "validateKudosSubmission submission =
    Inr (Some [\<lparr>fe_name = ''comment'', fe_error = ''The comment cannot be empty''\<rparr>])"
  using assms by (simp add: validateKudosSubmission_def trim_Nil_iff)

text \<open>
  Claim C6. For every kudos dialog submission whose comment is a string that is empty
  or made of white space only, the handler returns at once the validation-error reply
  with exactly one error, named \<^verbatim>\<open>comment\<close>; it calls \<^verbatim>\<open>respond\<close> not once, it schedules
  no continuation, and it leaves the store as it was.
\<close>

theorem blank_comment_rejected_at_once:
  assumes "getprop (p_submission payload) ''comment'' = JStr comment"
    and "\<forall>c\<in>set comment. is_ws c"
  shows "dialog_submission_handler M st payload =
    \<lparr>returned = Inr (ReplyErrors [\<lparr>fe_name = ''comment'', fe_error = ''The comment cannot be empty''\<rparr>]),
     pushed = [], deferred = None, final_store = st\<rparr>"
  using validate_blank [OF assms] by (simp add: dialog_submission_handler_def)

theorem blank_comment_rejected_at_once_witness:
  "dialog_submission_handler (memory_models kudos_users) Map.empty blank_payload =
    \<lparr>returned = Inr (ReplyErrors [\<lparr>fe_name = ''comment'', fe_error = ''The comment cannot be empty''\<rparr>]),
     pushed = [], deferred = None, final_store = Map.empty\<rparr>"
proof -
  have c: "getprop (p_submission blank_payload) ''comment'' = JStr ('' '' @ [CHR 0x09, CHR 0x0A] @ '' '')"
    by (simp add: blank_payload_def getprop_def)
  have w: "\<forall>c\<in>set ('' '' @ [CHR 0x09, CHR 0x0A] @ '' ''). is_ws c"
    by (simp add: is_ws_def)
  show ?thesis by (rule blank_comment_rejected_at_once [OF c w])
qed

text \<open>
  Claim C10. \<^verbatim>\<open>validateKudosSubmission\<close> returns only for a submission whose comment is a
  string: for a submission with no \<^verbatim>\<open>comment\<close> property it throws a \<^verbatim>\<open>TypeError\<close>
  instead of returning a validation error for the field, and it returns (an error
  list or \<^verbatim>\<open>undefined\<close>) exactly when the comment is a string.
\<close>

theorem validateKudosSubmission_throws_without_comment:
  "(''comment'' \<notin> fst ` set submission \<longrightarrow> validateKudosSubmission submission = Inl TypeError) \<and>
   ((\<exists>r. validateKudosSubmission submission = Inr r) = (\<exists>s. getprop submission ''comment'' = JStr s))"
proof
  show "''comment'' \<notin> fst ` set submission \<longrightarrow> validateKudosSubmission submission = Inl TypeError"
  proof
    assume "''comment'' \<notin> fst ` set submission"
    then have "map_of submission ''comment'' = None"
      using map_of_eq_None_iff [of submission "''comment''"] by blast
    then show "validateKudosSubmission submission = Inl TypeError"
      by (simp add: validateKudosSubmission_def getprop_def)
  qed
  show "(\<exists>r. validateKudosSubmission submission = Inr r) = (\<exists>s. getprop submission ''comment'' = JStr s)"
    by (cases "getprop submission ''comment''") (simp_all add: validateKudosSubmission_def Let_def)
qed

theorem validateKudosSubmission_throws_without_comment_witness:
  "validateKudosSubmission [(''user'', JStr ''U2'')] = Inl TypeError"
  using validateKudosSubmission_throws_without_comment [of "[(''user'', JStr ''U2'')]"] by simp

text \<open>
  For a submission that passes the validation the continuation always calls
  \<^verbatim>\<open>respond\<close> exactly twice, the acknowledgement first; the second message is decided by
  the lookup of \<^verbatim>\<open>payload.submission.id\<close>.
\<close>

lemma kudos_timeout_two_pushes:
  "\<exists>final. kudos_timeout M payload =
     [text_message (''<@'' @ toString (u_id (p_user payload)) @ ''> just gave kudos to <@''
        @ toString (getprop (p_submission payload) ''user'') @ ''>.''), final]"
  by (simp add: kudos_timeout_def Let_def)

lemma kudos_timeout_lookup_rejected:
  assumes "findBySlackId M (getprop (p_submission payload) ''id'') = Inl e"
  shows "kudos_timeout M payload ! 1 = text_message ''An error occurred while incrementing kudos.''"
  using assms by (simp add: kudos_timeout_def Let_def)

text \<open>
  Claim C3, on the code. The comment is \<^verbatim>\<open>great work\<close>, the submitting user is \<^verbatim>\<open>U1\<close>,
  the target user \<^verbatim>\<open>U2\<close> has the kudos count 4. The handler pushes two replies in order
  and the first names both users, but the second is the error text and no total: the
  continuation looks the user up by \<^verbatim>\<open>payload.submission.id\<close>, a property the dialog
  does not have, and not by \<^verbatim>\<open>payload.submission.user\<close>, the target it has just named.
\<close>

theorem kudos_final_reply_misses_target:
  "all_pushes (dialog_submission_handler (memory_models kudos_users) Map.empty kudos_payload) =
     [text_message ''<@U1> just gave kudos to <@U2>.'',
      text_message ''An error occurred while incrementing kudos.'']"
  by (simp add: all_pushes_def dialog_submission_handler_def validateKudosSubmission_def
      kudos_payload_def kudos_users_def memory_models_def getprop_def trim_def is_ws_def
      kudos_timeout_def text_message_def)

section \<open>The policy-acceptance handler and the original message\<close>

text \<open>
  Claim C1, on the code. User \<^verbatim>\<open>U1\<close> accepts, the lookup and the save succeed. The
  handler calls \<^verbatim>\<open>respond\<close> twice: first, before it returns, with the generic error
  text (lines 87-89, outside the promise chain), then with the confirmation.
\<close>

theorem accept_tos_pushes_generic_error_first:
  "all_pushes (accept_tos_handler (memory_models accept_users) accept_store accept_payload) =
     [text_message ''An error occurred while recording your agreement choice.'',
      text_message ''Thank you for agreeing to the terms of service'']"
  by (simp add: all_pushes_def accept_tos_handler_def accept_payload_def accept_users_def
      memory_models_def agreement_error_def Let_def)

text \<open>The first call does not depend on the event or on the collaborator.\<close>

lemma accept_tos_pushes_unconditionally:
  "\<exists>final. all_pushes (accept_tos_handler M st payload) = [agreement_error, final]"
  by (simp add: all_pushes_def accept_tos_handler_def Let_def)

text \<open>
  Claim C8, as amended. The handlers of \<^verbatim>\<open>accept_tos\<close> and \<^verbatim>\<open>pick_sf_neighborhood\<close> change
  the message of the event in place. When the event carries a message with a first
  attachment, the immediate reply is that very object (the address the payload holds,
  not a copy), and after the handler its first attachment has lost its \<^verbatim>\<open>actions\<close>;
  every other property of the message and every other object of the store is as
  before. The dialog handler leaves the store as it was.
\<close>

theorem original_message_stripped_in_place:
  assumes "p_original_message payload = Some r" and "st r = Some msg"
    and "m_attachments msg = Some (att # atts)"
  shows "returned (accept_tos_handler M st payload) = Inr (ReplyMessage r) \<and>
         final_store (accept_tos_handler M st payload) =
           st(r \<mapsto> msg\<lparr>m_attachments := Some (att\<lparr>a_actions := None\<rparr> # atts)\<rparr>) \<and>
         (p_actions payload = a # as \<and> act_selected_options a = sel # sels \<longrightarrow>
            returned (pick_sf_neighborhood_handler M st payload) = Inr (ReplyMessage r) \<and>
            final_store (pick_sf_neighborhood_handler M st payload) =
              st(r \<mapsto> msg\<lparr>m_attachments := Some (att\<lparr>a_actions := None\<rparr> # atts)\<rparr>)) \<and>
         final_store (dialog_submission_handler M st payload) = st"
proof -
  have s: "strip_original st (p_original_message payload) =
    Inr (st(r \<mapsto> msg\<lparr>m_attachments := Some (att\<lparr>a_actions := None\<rparr> # atts)\<rparr>), r)"
    using assms by (simp add: strip_original_def)
  have 1: "returned (accept_tos_handler M st payload) = Inr (ReplyMessage r)"
    by (simp add: accept_tos_handler_def Let_def s)
  have 2: "final_store (accept_tos_handler M st payload) =
           st(r \<mapsto> msg\<lparr>m_attachments := Some (att\<lparr>a_actions := None\<rparr> # atts)\<rparr>)"
    by (simp add: accept_tos_handler_def Let_def s)
  have 3: "p_actions payload = a # as \<and> act_selected_options a = sel # sels \<longrightarrow>
            returned (pick_sf_neighborhood_handler M st payload) = Inr (ReplyMessage r) \<and>
            final_store (pick_sf_neighborhood_handler M st payload) =
              st(r \<mapsto> msg\<lparr>m_attachments := Some (att\<lparr>a_actions := None\<rparr> # atts)\<rparr>)"
    by (simp add: pick_sf_neighborhood_handler_def Let_def s)
  have 4: "final_store (dialog_submission_handler M st payload) = st"
    by (simp add: dialog_submission_handler_def thrown_def split: sum.splits option.splits)
  show ?thesis using 1 2 3 4 by blast
qed

theorem original_message_stripped_in_place_witness:
  "returned (accept_tos_handler (memory_models accept_users) accept_store accept_payload)
     = Inr (ReplyMessage 0) \<and>
   final_store (accept_tos_handler (memory_models accept_users) accept_store accept_payload)
     = accept_store(0 \<mapsto> interactiveButtons\<lparr>m_attachments :=
         Some [(hd (the (m_attachments interactiveButtons)))\<lparr>a_actions := None\<rparr>]\<rparr>) \<and>
   returned (pick_sf_neighborhood_handler (memory_models accept_users) accept_store pick_payload)
     = Inr (ReplyMessage 0) \<and>
   final_store (pick_sf_neighborhood_handler (memory_models accept_users) accept_store pick_payload)
     = accept_store(0 \<mapsto> interactiveButtons\<lparr>m_attachments :=
         Some [(hd (the (m_attachments interactiveButtons)))\<lparr>a_actions := None\<rparr>]\<rparr>)"
proof -
  have r1: "p_original_message accept_payload = Some 0" by (simp add: accept_payload_def)
  have r2: "p_original_message pick_payload = Some 0" by (simp add: pick_payload_def)
  have s: "accept_store 0 = Some interactiveButtons" by (simp add: accept_store_def)
  have m: "m_attachments interactiveButtons = Some (hd (the (m_attachments interactiveButtons)) # [])"
    by (simp add: interactiveButtons_def)
  have p: "p_actions pick_payload = hd (p_actions pick_payload) # [] \<and>
           act_selected_options (hd (p_actions pick_payload)) = \<lparr>so_value = JStr ''Mission''\<rparr> # []"
    by (simp add: pick_payload_def)
  show ?thesis
    using original_message_stripped_in_place [of accept_payload 0 accept_store interactiveButtons
        "hd (the (m_attachments interactiveButtons))" "[]" "memory_models accept_users", OF r1 s m]
      original_message_stripped_in_place [of pick_payload 0 accept_store interactiveButtons
        "hd (the (m_attachments interactiveButtons))" "[]" "memory_models accept_users"
        "hd (p_actions pick_payload)" "[]" "\<lparr>so_value = JStr ''Mission''\<rparr>" "[]", OF r2 s m] p
    by blast
qed

text \<open>
  Claim C8 as stated fails: after \<^verbatim>\<open>accept_tos\<close> has handled the button press, the
  message at the address the event carries is no longer the message it carried.
\<close>

theorem original_message_mutated:
  "final_store (accept_tos_handler (memory_models accept_users) accept_store accept_payload) 0
     \<noteq> accept_store 0"
  by (simp add: accept_tos_handler_def accept_payload_def accept_store_def strip_original_def
      interactiveButtons_def)

section \<open>Devices and the listing\<close>

text \<open>
  Claim C2, as amended. For a remote or a sensor that has its device info, and for a
  plug that has a first plug channel, \<^verbatim>\<open>printDeviceInfo\<close> returns \<^verbatim>\<open>undefined\<close>: the
  battery level and the on/off state are read for the console only, no snapshot is
  built, and the listing gets no block for the device.
\<close>

theorem printDeviceInfo_telemetry_only:
  "((d_type device = JNum 0 \<or> d_type device = JNum 4) \<and> deviceInfo device = Some di \<longrightarrow>
      printDeviceInfo device = Inr None \<and> devices_loop [device] blocks = Inr blocks) \<and>
   (d_type device = JNum 3 \<and> plugList device = Some (p # ps) \<longrightarrow>
      printDeviceInfo device = Inr None \<and> devices_loop [device] blocks = Inr blocks)"
  by (auto simp add: printDeviceInfo_def)

theorem printDeviceInfo_telemetry_only_witness:
  "printDeviceInfo example_plug = Inr None \<and>
   devices_loop [example_plug] [welcome_section] = Inr [welcome_section] \<and>
   printDeviceInfo example_sensor = Inr None \<and>
   devices_loop [example_sensor] [welcome_section] = Inr [welcome_section]"
proof -
  have 1: "d_type example_plug = JNum 3 \<and> plugList example_plug = Some (\<lparr>p_onOff = JBool True\<rparr> # [])"
    by (simp add: example_plug_def)
  have 2: "(d_type example_sensor = JNum 0 \<or> d_type example_sensor = JNum 4) \<and>
           deviceInfo example_sensor = Some \<lparr>battery = JNum 60\<rparr>"
    by (simp add: example_sensor_def)
  show ?thesis
    using printDeviceInfo_telemetry_only [of example_plug "\<lparr>battery = JNum 60\<rparr>"
        "[welcome_section]" "\<lparr>p_onOff = JBool True\<rparr>" "[]"]
      printDeviceInfo_telemetry_only [of example_sensor "\<lparr>battery = JNum 60\<rparr>"
        "[welcome_section]" "\<lparr>p_onOff = JBool True\<rparr>" "[]"] 1 2
    by blast
qed

text \<open>
  Claim C2 as stated fails: for a remote with the battery level 87 the call returns
  \<^verbatim>\<open>undefined\<close>, not a snapshot with the kind and the battery level.
\<close>

theorem printDeviceInfo_remote_undefined:
  "printDeviceInfo example_remote = Inr None"
  by (simp add: printDeviceInfo_def example_remote_def)

text \<open>
  Claim C4, as amended. For every raw device record of type light that has a first
  light channel, \<^verbatim>\<open>printDeviceInfo\<close> returns an object whose \<^verbatim>\<open>onOff\<close>, \<^verbatim>\<open>spectrum\<close>,
  \<^verbatim>\<open>dimmer\<close> and \<^verbatim>\<open>color\<close> (and \<^verbatim>\<open>colorTemperature\<close>) are those of that channel, so each is
  set whenever the channel provides it, together with the \<^verbatim>\<open>instanceId\<close> and the
  \<^verbatim>\<open>name\<close> of the device; the object has no property for the kind. For a record of
  type light without a first light channel the call throws a \<^verbatim>\<open>TypeError\<close>.
\<close>

theorem printDeviceInfo_light:
  "d_type device = JNum 2 \<longrightarrow>
     (lightList device = Some (channel # channels) \<longrightarrow>
        printDeviceInfo device =
          Inr (Some \<lparr>i_instanceId = d_instanceId device, i_name = d_name device,
                     i_onOff = l_onOff channel, i_spectrum = l_spectrum channel,
                     i_dimmer = l_dimmer channel, i_color = l_color channel,
                     i_colorTemperature = l_colorTemperature channel\<rparr>)) \<and>
     (lightList device = None \<or> lightList device = Some [] \<longrightarrow>
        printDeviceInfo device = Inl TypeError)"
  by (auto simp add: printDeviceInfo_def)

theorem printDeviceInfo_light_witness:
  "printDeviceInfo example_light = Inr (Some example_info) \<and>
   printDeviceInfo (example_light\<lparr>lightList := None\<rparr>) = Inl TypeError"
proof -
  have 1: "d_type example_light = JNum 2" by (simp add: example_light_def)
  have 2: "lightList example_light = Some (example_channel # [])"
    by (simp add: example_light_def)
  have 3: "printDeviceInfo example_light = Inr (Some example_info)"
    using printDeviceInfo_light [of example_light example_channel "[]"] 1 2
    by (simp add: example_light_def example_channel_def example_info_def)
  have 4: "printDeviceInfo (example_light\<lparr>lightList := None\<rparr>) = Inl TypeError"
    using printDeviceInfo_light [of "example_light\<lparr>lightList := None\<rparr>" example_channel "[]"] 1
    by simp
  show ?thesis using 3 4 by simp
qed

text \<open>
  Claim C4 as stated fails: a record of type light with an empty list of channels makes
  the call throw; it returns no snapshot.
\<close>

theorem printDeviceInfo_light_no_channel_throws:
  "printDeviceInfo example_light_no_channel = Inl TypeError"
  by (simp add: printDeviceInfo_def example_light_no_channel_def)


lemma devices_loop_blocks:
  assumes "\<forall>device\<in>set devices. \<exists>r. printDeviceInfo device = Inr r"
  shows "devices_loop devices blocks =
    Inr (blocks @ concat (map (\<lambda>device. case printDeviceInfo device of
                                            Inr (Some info) \<Rightarrow> device_blocks info
                                          | _ \<Rightarrow> []) devices))"
  using assms
proof (induction devices arbitrary: blocks)
  case Nil
  then show ?case by simp
next
  case (Cons device rest)
  then obtain r where r: "printDeviceInfo device = Inr r" by auto
  show ?case
  proof (cases r)
    case None
    with r Cons show ?thesis by simp
  next
    case (Some info)
    with r Cons show ?thesis by simp
  qed
qed




text \<open>
  Claim C7, as amended. When \<^verbatim>\<open>printDeviceInfo\<close> throws for no device, the blocks of
  the listing are the welcome section followed, for each device in the order of the
  input, by four blocks when the call returns an object (the section with the name,
  the section with the fields, the input block and the divider) and by no block when
  it returns \<^verbatim>\<open>undefined\<close>.
\<close>

theorem listing_blocks_per_device:
  assumes "\<forall>device\<in>set devices. \<exists>r. printDeviceInfo device = Inr r"
  shows "map_sum id v_blocks (getAndPrintDevices (Inr devices)) =
    Inr (welcome_section #
         concat (map (\<lambda>device. case printDeviceInfo device of
                                  Inr (Some info) \<Rightarrow> device_blocks info
                                | _ \<Rightarrow> []) devices))
    \<and> device_blocks info = [basicInfo info, currentInfo info, textInput, divider]
    \<and> map block_type (device_blocks info) = [''section'', ''section'', ''input'', ''divider'']"
proof -
  have "map_sum id v_blocks (getAndPrintDevices (Inr devices)) =
    Inr (welcome_section #
         concat (map (\<lambda>device. case printDeviceInfo device of
                                  Inr (Some info) \<Rightarrow> device_blocks info
                                | _ \<Rightarrow> []) devices))"
    using devices_loop_blocks [OF assms, of "[welcome_section]"]
    by (simp add: getAndPrintDevices_def)
  moreover have "map block_type (device_blocks info) = [''section'', ''section'', ''input'', ''divider'']"
    by (simp add: device_blocks_def basicInfo_def currentInfo_def textInput_def divider_def)
  ultimately show ?thesis by (simp add: device_blocks_def)
qed

theorem listing_blocks_per_device_witness:
  "map_sum id v_blocks (getAndPrintDevices (Inr [example_remote, example_light, example_unknown])) =
     Inr (welcome_section # device_blocks example_info)"
proof -
  have 1: "printDeviceInfo example_remote = Inr None"
    by (simp add: printDeviceInfo_def example_remote_def)
  have 2: "printDeviceInfo example_light = Inr (Some example_info)"
    by (simp add: printDeviceInfo_def example_light_def example_channel_def example_info_def)
  have 3: "printDeviceInfo example_unknown = Inr None"
    by (simp add: printDeviceInfo_def example_unknown_def)
  have h: "\<forall>device\<in>set [example_remote, example_light, example_unknown].
             \<exists>r. printDeviceInfo device = Inr r"
    using 1 2 3 by simp
  show ?thesis using listing_blocks_per_device [OF h] by (simp add: 1 2 3)
qed

text \<open>
  Claim C7 as stated fails: the listing of one light has five blocks, the welcome
  section and then a section, a section with fields, an input block and a divider,
  and not a triple of section, fields and divider.
\<close>

theorem listing_of_one_light:
  "map_sum id (map block_type \<circ> v_blocks) (getAndPrintDevices (Inr [example_light])) =
     Inr [''section'', ''section'', ''section'', ''input'', ''divider'']"
  by (simp add: getAndPrintDevices_def printDeviceInfo_def example_light_def device_blocks_def
      basicInfo_def currentInfo_def textInput_def divider_def welcome_section_def)

section \<open>The slash command\<close>

lemma split_first: "split sep s = takeWhile (\<lambda>c. c \<noteq> sep) s # tl (split sep s)"
  by (induction s) (auto split: list.splits)

lemma split_index_0:
  "(case split (CHR '' '') text of [] \<Rightarrow> JUndefined | w # _ \<Rightarrow> JStr w) = JStr (first_word text)"
  by (subst split_first) (simp add: first_word_def)

text \<open>
  Claim C9, as amended. For every request whose signature is verified and whose command
  is the one of the bot: when its text is a string, the piece of the text before its
  first space (U+0020) selects what the handler does (\<^verbatim>\<open>button\<close> and \<^verbatim>\<open>menu\<close> answer
  with the example payloads, \<^verbatim>\<open>devices\<close> with the listing, \<^verbatim>\<open>dialog\<close> with an empty
  response and a view that is opened), and every other piece, the empty one too, gives
  the fixed usage string; when its text is not a string the handler throws a
  \<^verbatim>\<open>TypeError\<close> and makes no call on the response. For every request that is not
  verified or names another command, the handler calls \<^verbatim>\<open>res.sendStatus(404)\<close> and
  then \<^verbatim>\<open>next()\<close>: the response has the status 404 and, as its body, the status text
  \<^verbatim>\<open>Not Found\<close>.
\<close>

theorem slash_command_dispatch:
  "(verified \<and> rq_command req = JStr command_name \<and> rq_text req = JStr text \<longrightarrow>
      slackSlashCommand verified gateway views_open req =
        (if first_word text = ''button'' then Inr [ResJsonMessage interactiveButtons]
         else if first_word text = ''menu'' then Inr [ResJsonView interactiveMenu]
         else if first_word text = ''devices'' then
           map_sum id (\<lambda>devices. [ResJsonView devices]) (getAndPrintDevices gateway)
         else if first_word text = ''dialog'' then
           Inr ([ResSend None, ViewsOpen (rq_trigger_id req)] @
                (case views_open of
                   None \<Rightarrow> []
                 | Some m \<Rightarrow>
                     [AxiosPost (rq_response_url req)
                        (text_message (''An error occurred while opening the dialog: '' @ m))]))
         else Inr [ResSend (Some usage)])) \<and>
   (verified \<and> rq_command req = JStr command_name \<and> (\<forall>s. rq_text req \<noteq> JStr s) \<longrightarrow>
      slackSlashCommand verified gateway views_open req = Inl TypeError \<and>
      responses statuses (slackSlashCommand verified gateway views_open req) = []) \<and>
   (\<not> verified \<or> rq_command req \<noteq> JStr command_name \<longrightarrow>
      slackSlashCommand verified gateway views_open req = Inr [ResSendStatus 404, Next] \<and>
      (statuses 404 = Some ''Not Found'' \<longrightarrow>
         responses statuses (slackSlashCommand verified gateway views_open req) =
           [\<lparr>h_status = 404, h_body = Some (Text ''Not Found'')\<rparr>]))"
proof (intro conjI impI)
  assume a: "verified \<and> rq_command req = JStr command_name \<and> rq_text req = JStr text"
  have d: "(case getAndPrintDevices gateway of Inl e \<Rightarrow> Inl e | Inr devices \<Rightarrow> Inr [ResJsonView devices])
      = map_sum id (\<lambda>devices. [ResJsonView devices]) (getAndPrintDevices gateway)"
    by (cases "getAndPrintDevices gateway") simp_all
  show "slackSlashCommand verified gateway views_open req =
        (if first_word text = ''button'' then Inr [ResJsonMessage interactiveButtons]
         else if first_word text = ''menu'' then Inr [ResJsonView interactiveMenu]
         else if first_word text = ''devices'' then
           map_sum id (\<lambda>devices. [ResJsonView devices]) (getAndPrintDevices gateway)
         else if first_word text = ''dialog'' then
           Inr ([ResSend None, ViewsOpen (rq_trigger_id req)] @
                (case views_open of
                   None \<Rightarrow> []
                 | Some m \<Rightarrow>
                     [AxiosPost (rq_response_url req)
                        (text_message (''An error occurred while opening the dialog: '' @ m))]))
         else Inr [ResSend (Some usage)])"
    using a by (simp add: slackSlashCommand_def split_index_0 d Let_def)
next
  assume a: "verified \<and> rq_command req = JStr command_name \<and> (\<forall>s. rq_text req \<noteq> JStr s)"
  then show t: "slackSlashCommand verified gateway views_open req = Inl TypeError"
    by (cases "rq_text req") (simp_all add: slackSlashCommand_def)
  show "responses statuses (slackSlashCommand verified gateway views_open req) = []"
    by (simp add: t responses_def)
next
  assume "\<not> verified \<or> rq_command req \<noteq> JStr command_name"
  then show "slackSlashCommand verified gateway views_open req = Inr [ResSendStatus 404, Next]"
    by (auto simp add: slackSlashCommand_def)
next
  assume "\<not> verified \<or> rq_command req \<noteq> JStr command_name"
  then have r: "slackSlashCommand verified gateway views_open req = Inr [ResSendStatus 404, Next]"
    by (auto simp add: slackSlashCommand_def)
  assume "statuses 404 = Some ''Not Found''"
  then show "responses statuses (slackSlashCommand verified gateway views_open req) =
           [\<lparr>h_status = 404, h_body = Some (Text ''Not Found'')\<rparr>]"
    by (simp add: r responses_def List.map_filter_simps sendStatus_def)
qed

theorem slash_command_dispatch_witness:
  "slackSlashCommand True (Inr [example_light]) None (example_request ''button please'') =
     Inr [ResJsonMessage interactiveButtons] \<and>
   slackSlashCommand True (Inr [example_light]) None (example_request ''lamp on'') =
     Inr [ResSend (Some usage)] \<and>
   slackSlashCommand True (Inr [example_light]) None
       (example_request (''button'' @ [CHR 0x09] @ ''please'')) =
     Inr [ResSend (Some usage)] \<and>
   slackSlashCommand True (Inr [example_light]) None
       ((example_request [])\<lparr>rq_text := JUndefined\<rparr>) = Inl TypeError \<and>
   slackSlashCommand False (Inr [example_light]) None (example_request ''button please'') =
     Inr [ResSendStatus 404, Next] \<and>
   responses status_messages
       (slackSlashCommand True (Inr [example_light]) None
          ((example_request ''button please'')\<lparr>rq_command := JStr ''/other''\<rparr>)) =
     [\<lparr>h_status = 404, h_body = Some (Text ''Not Found'')\<rparr>]"
proof -
  have c: "rq_command ((example_request ''button please'')\<lparr>rq_command := JStr ''/other''\<rparr>)
             \<noteq> JStr command_name"
    by (simp add: command_name_def)
  have t: "status_messages 404 = Some ''Not Found''" by (simp add: status_messages_def)
  have 1: "slackSlashCommand True (Inr [example_light]) None (example_request ''button please'') =
     Inr [ResJsonMessage interactiveButtons]"
    using slash_command_dispatch [of True "example_request ''button please''" "''button please''"
        "Inr [example_light]" None status_messages]
    by (simp add: example_request_def first_word_def)
  have 2: "slackSlashCommand True (Inr [example_light]) None (example_request ''lamp on'') =
     Inr [ResSend (Some usage)]"
    using slash_command_dispatch [of True "example_request ''lamp on''" "''lamp on''"
        "Inr [example_light]" None status_messages]
    by (simp add: example_request_def first_word_def)
  have 3: "slackSlashCommand True (Inr [example_light]) None
       (example_request (''button'' @ [CHR 0x09] @ ''please'')) = Inr [ResSend (Some usage)]"
    using slash_command_dispatch [of True "example_request (''button'' @ [CHR 0x09] @ ''please'')"
        "''button'' @ [CHR 0x09] @ ''please''" "Inr [example_light]" None status_messages]
    by (simp add: example_request_def first_word_def)
  have 4: "slackSlashCommand True (Inr [example_light]) None
       ((example_request [])\<lparr>rq_text := JUndefined\<rparr>) = Inl TypeError"
    using slash_command_dispatch [of True "(example_request [])\<lparr>rq_text := JUndefined\<rparr>" "[]"
        "Inr [example_light]" None status_messages]
    by (simp add: example_request_def)
  have 5: "slackSlashCommand False (Inr [example_light]) None (example_request ''button please'') =
     Inr [ResSendStatus 404, Next]"
    using slash_command_dispatch [of False "example_request ''button please''" "''button please''"
        "Inr [example_light]" None status_messages]
    by simp
  have 6: "responses status_messages
       (slackSlashCommand True (Inr [example_light]) None
          ((example_request ''button please'')\<lparr>rq_command := JStr ''/other''\<rparr>)) =
     [\<lparr>h_status = 404, h_body = Some (Text ''Not Found'')\<rparr>]"
    using slash_command_dispatch [of True
        "(example_request ''button please'')\<lparr>rq_command := JStr ''/other''\<rparr>"
        "''button please''" "Inr [example_light]" None status_messages] c t
    by blast
  show ?thesis using 1 2 3 4 5 6 by blast
qed

text \<open>
  Claim C9 as stated fails: the response to a request that fails the verification has
  a body, the status text of 404.
\<close>

theorem unverified_request_gets_body:
  "responses status_messages
     (slackSlashCommand False (Inr [example_light]) None (example_request ''button please'')) =
     [\<lparr>h_status = 404, h_body = Some (Text ''Not Found'')\<rparr>]"
  by (simp add: slackSlashCommand_def responses_def List.map_filter_simps sendStatus_def
      status_messages_def)

end
